theory Spec2Isabelle
  imports Complex_Main "HOL-Library.AList"
begin

section \<open>Rate limiter (src/lib/errorHandler.ts, lines 290-541)\<close>

text \<open>
  Timestamps are the integer milliseconds of \<^verbatim>\<open>Date.now()\<close>; \<^verbatim>\<open>windowMs\<close> and
  \<^verbatim>\<open>maxRequests\<close> are JavaScript numbers holding integers (every predefined profile
  does), so all three are \<open>int\<close>. The fields \<^verbatim>\<open>message\<close> and \<^verbatim>\<open>statusCode\<close> are
  carried along; \<^verbatim>\<open>keyGenerator\<close> is optional.
\<close>

record RateLimitConfig =
  windowMs :: int
  maxRequests :: int
  message :: string
  statusCode :: int
  keyGenerator :: "(string \<Rightarrow> string) option"

record RateLimitEntry =
  count :: int
  firstRequest :: int
  resetTime :: int

text \<open>
  \<^verbatim>\<open>private store: Map<string, RateLimitEntry>\<close>. A JavaScript \<^verbatim>\<open>Map\<close> enumerates in
  insertion order, \<^verbatim>\<open>set\<close> on an existing key keeps its position and \<^verbatim>\<open>delete\<close> removes
  the key: an association list with \<open>AList.update\<close> and \<open>AList.delete\<close>.
\<close>

type_synonym RateLimitStore = "(string \<times> RateLimitEntry) list"

text \<open>The period of the timer the constructor installs: \<^verbatim>\<open>setInterval(..., 60000)\<close>.\<close>

definition CLEANUP_INTERVAL_MS :: int where
  "CLEANUP_INTERVAL_MS = 60000"

text \<open>
  \<^verbatim>\<open>cleanup()\<close>: the first \<^verbatim>\<open>forEach\<close> collects the keys of the entries with
  \<^verbatim>\<open>entry.resetTime < now\<close>, the second deletes each of them. \<open>now\<close> is the reading of
  \<^verbatim>\<open>Date.now()\<close> at the start of the pass.
\<close>

definition expiredKeys :: "int \<Rightarrow> RateLimitStore \<Rightarrow> string list" where
  "expiredKeys now store = map fst (filter (\<lambda>(key, entry). resetTime entry < now) store)"

definition cleanup :: "int \<Rightarrow> RateLimitStore \<Rightarrow> RateLimitStore" where
  "cleanup now store = fold AList.delete (expiredKeys now store) store"

text \<open>\<^verbatim>\<open>get(key)\<close>: an expired entry is deleted and reported as absent.\<close>

definition get :: "string \<Rightarrow> int \<Rightarrow> RateLimitStore \<Rightarrow> RateLimitEntry option \<times> RateLimitStore" where
  "get key now store =
     (case map_of store key of
        None \<Rightarrow> (None, store)
      | Some entry \<Rightarrow>
          if resetTime entry < now then (None, AList.delete key store)
          else (Some entry, store))"

text \<open>
  \<^verbatim>\<open>increment(key, windowMs)\<close>. The existing entry is an object shared with the map, so
  \<^verbatim>\<open>entry.count++\<close> changes the stored entry as well.
\<close>

definition increment :: "string \<Rightarrow> int \<Rightarrow> int \<Rightarrow> RateLimitStore \<Rightarrow> RateLimitEntry \<times> RateLimitStore" where
  "increment key wMs now store =
     (case map_of store key of
        None \<Rightarrow>
          (let newEntry = \<lparr>count = 1, firstRequest = now, resetTime = now + wMs\<rparr>
           in (newEntry, AList.update key newEntry store))
      | Some entry \<Rightarrow>
          if resetTime entry < now then
            (let newEntry = \<lparr>count = 1, firstRequest = now, resetTime = now + wMs\<rparr>
             in (newEntry, AList.update key newEntry store))
          else
            (let entry' = entry\<lparr>count := count entry + 1\<rparr>
             in (entry', AList.update key entry' store)))"

text \<open>\<^verbatim>\<open>reset(key)\<close>, \<^verbatim>\<open>size()\<close> and the map part of \<^verbatim>\<open>destroy()\<close>.\<close>

definition reset :: "string \<Rightarrow> RateLimitStore \<Rightarrow> RateLimitStore" where
  "reset key store = AList.delete key store"

definition size_store :: "RateLimitStore \<Rightarrow> nat" where
  "size_store store = length store"

definition destroy :: "RateLimitStore \<Rightarrow> RateLimitStore" where
  "destroy store = []"

text \<open>The object the limiter returns.\<close>

record RateLimitResult =
  allowed :: bool
  remaining :: int
  rl_resetTime :: int
  retryAfter :: int

text \<open>\<^verbatim>\<open>Math.ceil(x / 1000)\<close> for an integer \<open>x\<close>.\<close>

definition ceil1000 :: "int \<Rightarrow> int" where
  "ceil1000 x = - ((- x) div 1000)"

text \<open>
  The function returned by \<^verbatim>\<open>createRateLimiter(config)\<close>, applied to \<open>identifier\<close>.
  \<^verbatim>\<open>Date.now()\<close> is read twice: \<open>now\<close> inside \<^verbatim>\<open>store.increment\<close> and \<open>now'\<close> for
  \<^verbatim>\<open>retryAfter\<close>.
\<close>

definition createRateLimiter ::
  "RateLimitConfig \<Rightarrow> string \<Rightarrow> int \<Rightarrow> int \<Rightarrow> RateLimitStore \<Rightarrow> RateLimitResult \<times> RateLimitStore" where
  "createRateLimiter config identifier now now' store =
     (let key = (case keyGenerator config of Some g \<Rightarrow> g identifier | None \<Rightarrow> identifier);
          (entry, store') = increment key (windowMs config) now store;
          remaining = max 0 (maxRequests config - count entry);
          retryAfter = ceil1000 (resetTime entry - now')
      in (\<lparr>allowed = count entry \<le> maxRequests config,
           remaining = remaining,
           rl_resetTime = resetTime entry,
           retryAfter = (if retryAfter > 0 then retryAfter else 0)\<rparr>,
          store'))"

text \<open>The key under which the limiter counts an identifier (its first line).\<close>

definition limiterKey :: "RateLimitConfig \<Rightarrow> string \<Rightarrow> string" where
  "limiterKey config identifier =
     (case keyGenerator config of Some g \<Rightarrow> g identifier | None \<Rightarrow> identifier)"

text \<open>Successive calls of one limiter with one identifier, each with its two clock readings.\<close>

fun calls ::
  "RateLimitConfig \<Rightarrow> string \<Rightarrow> (int \<times> int) list \<Rightarrow> RateLimitStore \<Rightarrow> RateLimitResult list \<times> RateLimitStore" where
  "calls config identifier [] store = ([], store)"
| "calls config identifier ((now, now') # ts) store =
     (let (r, store') = createRateLimiter config identifier now now' store;
          (rs, store'') = calls config identifier ts store'
      in (r # rs, store''))"

text \<open>The predefined profiles (\<^verbatim>\<open>RateLimitConfigs\<close>).\<close>

datatype RateLimitType = login | admin | publicAPI | inquiry | development

definition RateLimitConfigs :: "RateLimitType \<Rightarrow> RateLimitConfig" where
  "RateLimitConfigs t =
     (case t of
        login \<Rightarrow> \<lparr>windowMs = 15 * 60 * 1000, maxRequests = 5,
                   message = ''Too many login attempts. Please try again later.'',
                   statusCode = 429, keyGenerator = None\<rparr>
      | admin \<Rightarrow> \<lparr>windowMs = 1 * 60 * 1000, maxRequests = 30,
                   message = ''Too many requests to admin API. Please slow down.'',
                   statusCode = 429, keyGenerator = None\<rparr>
      | publicAPI \<Rightarrow> \<lparr>windowMs = 1 * 60 * 1000, maxRequests = 60,
                   message = ''Too many requests. Please try again later.'',
                   statusCode = 429, keyGenerator = None\<rparr>
      | inquiry \<Rightarrow> \<lparr>windowMs = 60 * 60 * 1000, maxRequests = 10,
                   message = ''Too many inquiries. Please try again later.'',
                   statusCode = 429, keyGenerator = None\<rparr>
      | development \<Rightarrow> \<lparr>windowMs = 60 * 60 * 1000, maxRequests = 1000000,
                   message = ''Rate limited'',
                   statusCode = 429, keyGenerator = None\<rparr>)"

text \<open>
  \<^verbatim>\<open>getRateLimitConfig(type, isDevelopment)\<close>. The fallback to \<^verbatim>\<open>publicAPI\<close> is for a
  \<^verbatim>\<open>type\<close> outside the table, which the parameter's type excludes.
\<close>

definition getRateLimitConfig :: "RateLimitType \<Rightarrow> bool \<Rightarrow> RateLimitConfig" where
  "getRateLimitConfig t isDevelopment =
     (if isDevelopment then RateLimitConfigs development else RateLimitConfigs t)"


subsection \<open>Client identity from the request headers\<close>

text \<open>
  \<^verbatim>\<open>headers.get(name)\<close> gives the value of a header or \<^verbatim>\<open>null\<close>: a \<^verbatim>\<open>Headers\<close> object is
  the partial function from names to values. A header value is a byte string, one
  \<open>char\<close> per code unit.
\<close>

type_synonym Headers = "string \<Rightarrow> string option"

text \<open>\<^verbatim>\<open>if (value)\<close> on a \<^verbatim>\<open>string | null\<close>: \<^verbatim>\<open>null\<close> and the empty string are falsy.\<close>

definition truthy :: "string option \<Rightarrow> bool" where
  "truthy v = (case v of None \<Rightarrow> False | Some s \<Rightarrow> s \<noteq> [])"

text \<open>
  \<^verbatim>\<open>String.prototype.split\<close> with a separator of one character, and
  \<^verbatim>\<open>String.prototype.trim\<close>. Among the code units below 256 the white space and line
  terminators of ECMAScript are TAB, LF, VT, FF, CR, SP and NBSP.
\<close>

fun split_str :: "char \<Rightarrow> string \<Rightarrow> string list" where
  "split_str sep [] = [[]]"
| "split_str sep (c # cs) =
     (if c = sep then [] # split_str sep cs
      else (case split_str sep cs of
              [] \<Rightarrow> [[c]]
            | part # parts \<Rightarrow> (c # part) # parts))"

definition isWhiteSpace :: "char \<Rightarrow> bool" where
  "isWhiteSpace c = (of_char c \<in> {9, 10, 11, 12, 13, 32, 160 :: nat})"

definition trim :: "string \<Rightarrow> string" where
  "trim s = rev (dropWhile isWhiteSpace (rev (dropWhile isWhiteSpace s)))"

text \<open>
  \<^verbatim>\<open>getClientIP(headers)\<close>. \<^verbatim>\<open>split\<close> never returns an empty array, so element 0
  exists.
\<close>

definition getClientIP :: "Headers \<Rightarrow> string" where
  "getClientIP headers =
     (let forwarded = headers ''x-forwarded-for'' in
      if truthy forwarded then trim (hd (split_str CHR '','' (the forwarded)))
      else
        let cloudflare = headers ''cf-connecting-ip'' in
        if truthy cloudflare then the cloudflare
        else
          let realIP = headers ''x-real-ip'' in
          if truthy realIP then the realIP
          else ''unknown'')"

section \<open>Session tokens and credentials (src/lib/auth.ts)\<close>

subsection \<open>The platform and the libraries the module calls\<close>

text \<open>
  A \<^verbatim>\<open>Date\<close> is its time value in milliseconds, \<open>None\<close> for an Invalid Date (NaN).
  \<^verbatim>\<open>a < b\<close> on two dates compares the time values and is false when one is NaN.
\<close>

type_synonym Date = "int option"

definition date_less :: "Date \<Rightarrow> Date \<Rightarrow> bool" where
  "date_less a b = (case (a, b) of (Some x, Some y) \<Rightarrow> x < y | _ \<Rightarrow> False)"

text \<open>
  The value of a claim in a token's payload, as \<^verbatim>\<open>new Date(value)\<close> and the numeric checks
  read it. A string is kept as what \<^verbatim>\<open>Date.parse\<close> makes of it: \<open>DateString t\<close> when it
  parses to the time value \<open>t\<close>, which is the case of \<^verbatim>\<open>d.toISOString()\<close> for a date
  \<^verbatim>\<open>d\<close> with time value \<open>t\<close> (ECMAScript: \<^verbatim>\<open>Date.parse(d.toISOString())\<close> is
  \<^verbatim>\<open>d.valueOf()\<close>), and \<open>OtherString s\<close> when it parses to NaN. Numbers are integers, as
  every number this module writes is.
\<close>

datatype jsvalue =
  Undefined | Null | Boolean bool | Number int | DateString int | OtherString string

text \<open>
  \<^verbatim>\<open>new Date(value)\<close>: \<^verbatim>\<open>undefined\<close> gives an Invalid Date, \<^verbatim>\<open>null\<close> and booleans are
  converted to numbers, a number is clipped to the range of time values
  (\<open>8.64 * 10^15\<close> ms on either side of the epoch), a string is parsed.
\<close>

definition newDate :: "jsvalue \<Rightarrow> Date" where
  "newDate v =
     (case v of
        Undefined \<Rightarrow> None
      | Null \<Rightarrow> Some 0
      | Boolean b \<Rightarrow> Some (if b then 1 else 0)
      | Number n \<Rightarrow> (if \<bar>n\<bar> \<le> 8640000000000000 then Some n else None)
      | DateString t \<Rightarrow> Some t
      | OtherString s \<Rightarrow> None)"

text \<open>
  The library \<^verbatim>\<open>jose\<close> is a dependency, not code of the repository. It is modelled by its
  published behaviour for the two calls the module makes, \<^verbatim>\<open>new SignJWT(..)...sign(secret)\<close>
  and \<^verbatim>\<open>jwtVerify(token, secret)\<close> with a symmetric secret and no options, on tokens in
  parsed form. A string that is not a compact JWS with a protected header the library
  supports, a JSON object as payload and a decodable signature is \<open>Malformed\<close>. Any other
  token \<open>JWS a payload s u\<close> is
  \<^item> the algorithm \<open>a\<close> named by its protected header;
  \<^item> its payload;
  \<^item> the bytes \<open>s\<close> its signature text decodes to;
  \<^item> the value \<open>u\<close> of the bits of the last character of the signature text that
    encode no signature bit (two bits for the 32 bytes of HS256, four for the 64 bytes
    of HS512, none for the 48 bytes of HS384, where \<open>u\<close> is 0). Base64url decoding
    discards these bits; \<^verbatim>\<open>sign\<close> writes zeros.

  \<open>sig\<close>, a parameter everywhere, is the HMAC under \<^verbatim>\<open>JWT_SECRET\<close> of the token's signing
  input (protected header and payload) for the algorithm of the header. Without the
  \<^verbatim>\<open>algorithms\<close> option every HMAC algorithm is accepted for a symmetric secret.
\<close>

datatype alg = HS256 | HS384 | HS512 | OtherAlg string

definition hmacAlg :: "alg \<Rightarrow> bool" where
  "hmacAlg a = (case a of HS256 \<Rightarrow> True | HS384 \<Rightarrow> True | HS512 \<Rightarrow> True | OtherAlg name \<Rightarrow> False)"

record JWTPayload =
  username :: "string option"
  expiresAt :: jsvalue
  iat :: jsvalue
  nbf :: jsvalue
  exp_claim :: jsvalue

datatype 's token = Malformed string | JWS alg JWTPayload 's nat

datatype JOSEError =
  JWSInvalid | JOSENotSupported | JWSSignatureVerificationFailed | JWTClaimValidationFailed
  | JWTExpired

text \<open>\<^verbatim>\<open>epoch(date)\<close>: whole seconds, \<^verbatim>\<open>Math.floor(date.getTime() / 1000)\<close>.\<close>

definition epoch :: "int \<Rightarrow> int" where
  "epoch ms = ms div 1000"

text \<open>
  The validation of the registered claims after the signature has verified, with the
  clock at \<open>now\<close> seconds and no tolerance: \<^verbatim>\<open>iat\<close>, \<^verbatim>\<open>nbf\<close> and \<^verbatim>\<open>exp\<close> must be numbers
  when present, \<^verbatim>\<open>nbf > now\<close> is refused, and \<^verbatim>\<open>exp <= now\<close> is refused as expired.
\<close>

definition isNumber :: "jsvalue \<Rightarrow> bool" where
  "isNumber v = (case v of Number n \<Rightarrow> True | _ \<Rightarrow> False)"

definition validateClaims :: "JWTPayload \<Rightarrow> int \<Rightarrow> JOSEError + JWTPayload" where
  "validateClaims payload now =
     (if iat payload \<noteq> Undefined \<and> \<not> isNumber (iat payload) then Inl JWTClaimValidationFailed
      else if nbf payload \<noteq> Undefined \<and> \<not> isNumber (nbf payload) then Inl JWTClaimValidationFailed
      else if (case nbf payload of Number n \<Rightarrow> n > now | _ \<Rightarrow> False) then Inl JWTClaimValidationFailed
      else if exp_claim payload \<noteq> Undefined \<and> \<not> isNumber (exp_claim payload) then Inl JWTClaimValidationFailed
      else if (case exp_claim payload of Number n \<Rightarrow> n \<le> now | _ \<Rightarrow> False) then Inl JWTExpired
      else Inr payload)"

text \<open>
  \<^verbatim>\<open>jwtVerify(token, JWT_SECRET)\<close> with the clock at \<open>now\<close> milliseconds: the algorithm
  must be one for the secret, the decoded signature must be the HMAC of the signing
  input, and the registered claims must validate. What it throws is \<open>Inl\<close>.
\<close>

definition jwtVerify :: "(alg \<Rightarrow> JWTPayload \<Rightarrow> 's) \<Rightarrow> 's token \<Rightarrow> int \<Rightarrow> JOSEError + JWTPayload" where
  "jwtVerify sig tok now =
     (case tok of
        Malformed text \<Rightarrow> Inl JWSInvalid
      | JWS a payload s u \<Rightarrow>
          if \<not> hmacAlg a then Inl JOSENotSupported
          else if s \<noteq> sig a payload then Inl JWSSignatureVerificationFailed
          else validateClaims payload (epoch now))"

text \<open>\<^verbatim>\<open>secs('2h')\<close>, the seconds of the time span \<^verbatim>\<open>`${SESSION_EXPIRATION_HOURS}h`\<close>.\<close>

definition secs_hours :: "int \<Rightarrow> int" where
  "secs_hours h = h * 60 * 60"

text \<open>
  \<^verbatim>\<open>bcrypt.compare(password, hash)\<close> of \<^verbatim>\<open>bcryptjs\<close> is a parameter \<open>compare\<close>: the
  promise resolves to a boolean (\<open>Inr\<close>) or rejects (\<open>Inl\<close>).
\<close>

type_synonym 'e bcrypt_compare = "string \<Rightarrow> string \<Rightarrow> 'e + bool"

subsection \<open>The module\<close>

definition SESSION_EXPIRATION_HOURS :: int where
  "SESSION_EXPIRATION_HOURS = 2"

record SessionPayload =
  sp_username :: "string option"
  sp_expiresAt :: Date

text \<open>
  \<^verbatim>\<open>createSession(username)\<close>, with the protected header \<^verbatim>\<open>{ alg: 'HS256' }\<close>. The clock
  is read three times: by \<^verbatim>\<open>Date.now()\<close> (\<open>t1\<close>), by \<^verbatim>\<open>setIssuedAt()\<close> (\<open>t2\<close>) and by
  \<^verbatim>\<open>setExpirationTime\<close> (\<open>t3\<close>).
\<close>

definition createSession :: "(alg \<Rightarrow> JWTPayload \<Rightarrow> 's) \<Rightarrow> string \<Rightarrow> int \<Rightarrow> int \<Rightarrow> int \<Rightarrow> 's token" where
  "createSession sig user t1 t2 t3 =
     (let expiresAt = t1 + SESSION_EXPIRATION_HOURS * 60 * 60 * 1000;
          payload = \<lparr>username = Some user,
                     expiresAt = DateString expiresAt,
                     iat = Number (epoch t2),
                     nbf = Undefined,
                     exp_claim = Number (epoch t3 + secs_hours SESSION_EXPIRATION_HOURS)\<rparr>
      in JWS HS256 payload (sig HS256 payload) 0)"

text \<open>
  \<^verbatim>\<open>verifySession(token)\<close>, \<open>None\<close> for \<^verbatim>\<open>null\<close>. The clock is read by \<^verbatim>\<open>jwtVerify\<close>
  (\<open>now\<close>) and by \<^verbatim>\<open>new Date()\<close> in the additional check (\<open>now'\<close>). Whatever
  \<^verbatim>\<open>jwtVerify\<close> throws is caught, logged and turned into \<^verbatim>\<open>null\<close>.
\<close>

definition verifySession :: "(alg \<Rightarrow> JWTPayload \<Rightarrow> 's) \<Rightarrow> 's token \<Rightarrow> int \<Rightarrow> int \<Rightarrow> SessionPayload option" where
  "verifySession sig tok now now' =
     (case jwtVerify sig tok now of
        Inl error \<Rightarrow> None
      | Inr payload \<Rightarrow>
          (let expiresAt = newDate (expiresAt payload) in
           if date_less expiresAt (Some now') then None
           else Some \<lparr>sp_username = username payload, sp_expiresAt = expiresAt\<rparr>))"

text \<open>
  \<^verbatim>\<open>verifyCredentials(email, password)\<close> with the process environment it reads. The result
  is paired with the milliseconds of \<^verbatim>\<open>setTimeout\<close> the call waits for.
\<close>

record Env =
  ADMIN_EMAIL :: string
  ADMIN_PASSWORD :: string

definition TARGET_EMAIL :: string where
  "TARGET_EMAIL = ''admin@russoluxtours.de''"

definition TARGET_HASH :: string where
  "TARGET_HASH = ''$2b$10$tUUemSJgbfXhTFH.LgwXJup6UoxMAp6i36lKZGRiXcgaGuCkCNdf2''"

definition verifyCredentials :: "'e bcrypt_compare \<Rightarrow> Env \<Rightarrow> string \<Rightarrow> string \<Rightarrow> bool \<times> nat" where
  "verifyCredentials compare env email password =
     (let adminEmail = ADMIN_EMAIL env;
          adminPassword = ADMIN_PASSWORD env
      in if email \<noteq> TARGET_EMAIL then (False, 100)
         else (case compare password TARGET_HASH of
                 Inr isPasswordValid \<Rightarrow> (isPasswordValid, 0)
               | Inl error \<Rightarrow> (False, 0)))"

section \<open>Properties of the rate limiter\<close>

subsection \<open>Auxiliary facts\<close>

lemma ceil1000_ceiling: "ceil1000 x = \<lceil>real_of_int x / 1000\<rceil>"
proof -
  have "\<lfloor>real_of_int (- x) / real_of_int 1000\<rfloor> = (- x) div 1000"
    by (rule floor_divide_of_int_eq)
  then show ?thesis
    by (simp add: ceil1000_def ceiling_def)
qed

lemma fold_delete_filter:
  "fold AList.delete ks al = filter (\<lambda>(k, e). k \<notin> set ks) al"
proof (induction ks arbitrary: al)
  case Nil
  then show ?case by simp
next
  case (Cons k ks)
  have "filter (\<lambda>(k', e). k' \<notin> set ks) (AList.delete k al) = filter (\<lambda>(k', e). k' \<notin> set (k # ks)) al"
    by (induction al) (auto simp: AList.delete_eq)
  with Cons show ?case by simp
qed

lemma cleanup_filter_keys:
  "cleanup now store = filter (\<lambda>(k, e). k \<notin> set (expiredKeys now store)) store"
  by (simp add: cleanup_def fold_delete_filter)

lemma cleanup_no_expired:
  assumes "(k, e) \<in> set (cleanup now store)"
  shows "\<not> resetTime e < now"
proof
  assume "resetTime e < now"
  moreover from assms have "(k, e) \<in> set store" and "k \<notin> set (expiredKeys now store)"
    by (auto simp: cleanup_filter_keys)
  ultimately show False
    by (force simp: expiredKeys_def)
qed

lemma cleanup_distinct_filter:
  assumes "distinct (map fst store)"
  shows "cleanup now store = filter (\<lambda>(k, e). \<not> resetTime e < now) store"
proof -
  have "k \<in> set (expiredKeys now store) \<longleftrightarrow> resetTime e < now" if "(k, e) \<in> set store" for k e
  proof
    assume "k \<in> set (expiredKeys now store)"
    then obtain e' where e': "(k, e') \<in> set store" "resetTime e' < now"
      by (auto simp: expiredKeys_def)
    from assms that e'(1) have "e' = e"
      by (meson eq_key_imp_eq_value)
    with e'(2) show "resetTime e < now" by simp
  next
    assume "resetTime e < now"
    with that show "k \<in> set (expiredKeys now store)"
      by (force simp: expiredKeys_def)
  qed
  then show ?thesis
    unfolding cleanup_filter_keys by (intro filter_cong) auto
qed

lemma limiter_unfold:
  "createRateLimiter config identifier now now' store =
     (let entry = fst (increment (limiterKey config identifier) (windowMs config) now store)
      in (\<lparr>allowed = count entry \<le> maxRequests config,
           remaining = max 0 (maxRequests config - count entry),
           rl_resetTime = resetTime entry,
           retryAfter = max 0 (ceil1000 (resetTime entry - now'))\<rparr>,
          snd (increment (limiterKey config identifier) (windowMs config) now store)))"
  by (simp add: createRateLimiter_def limiterKey_def Let_def split_beta max_def)

lemma increment_fresh:
  assumes "fst (get key now store) = None"
  shows "increment key w now store =
      (\<lparr>count = 1, firstRequest = now, resetTime = now + w\<rparr>,
       AList.update key \<lparr>count = 1, firstRequest = now, resetTime = now + w\<rparr> store)"
  using assms by (auto simp: increment_def get_def Let_def split: option.splits if_splits)

lemma increment_live:
  assumes "fst (get key now store) = Some e"
  shows "increment key w now store =
      (e\<lparr>count := count e + 1\<rparr>, AList.update key (e\<lparr>count := count e + 1\<rparr>) store)"
  using assms by (auto simp: increment_def get_def Let_def split: option.splits if_splits)

lemma increment_stores_entry:
  "map_of (snd (increment key w now store)) key = Some (fst (increment key w now store))"
  by (simp add: increment_def Let_def update_conv' split: option.splits)

lemma increment_other_key:
  "k \<noteq> key \<Longrightarrow> map_of (snd (increment key w now store)) k = map_of store k"
  by (simp add: increment_def Let_def update_conv' split: option.splits)

lemma get_live_iff:
  "fst (get key now store) = Some e \<longleftrightarrow> map_of store key = Some e \<and> \<not> resetTime e < now"
  by (auto simp: get_def split: option.splits)

lemma get_none_iff:
  "fst (get key now store) = None \<longleftrightarrow>
     map_of store key = None \<or> (\<exists>e. map_of store key = Some e \<and> resetTime e < now)"
  by (auto simp: get_def split: option.splits)

lemma calls_live:
  assumes "map_of store (limiterKey config identifier) = Some e"
    and "\<forall>(t, t') \<in> set ts. \<not> resetTime e < t"
    and "i < length ts"
  shows "fst (calls config identifier ts store) ! i =
     \<lparr>allowed = count e + int i + 1 \<le> maxRequests config,
      remaining = max 0 (maxRequests config - (count e + int i + 1)),
      rl_resetTime = resetTime e,
      retryAfter = max 0 (ceil1000 (resetTime e - snd (ts ! i)))\<rparr>"
  using assms
proof (induction ts arbitrary: store e i)
  case Nil
  then show ?case by simp
next
  case (Cons p ts)
  obtain t t' where p: "p = (t, t')" by (cases p)
  let ?key = "limiterKey config identifier"
  let ?e' = "e\<lparr>count := count e + 1\<rparr>"
  let ?store' = "AList.update ?key ?e' store"
  from Cons.prems p have live: "fst (get ?key t store) = Some e"
    by (simp add: get_live_iff)
  then have inc: "increment ?key (windowMs config) t store = (?e', ?store')"
    by (rule increment_live)
  show ?case
  proof (cases i)
    case 0
    with p inc show ?thesis
      by (simp add: limiter_unfold Let_def split_beta)
  next
    case (Suc j)
    have "map_of ?store' ?key = Some ?e'"
      by (simp add: update_conv')
    moreover from Cons.prems have "\<forall>(t, t') \<in> set ts. \<not> resetTime ?e' < t"
      by auto
    moreover from Cons.prems Suc have "j < length ts" by simp
    ultimately have "fst (calls config identifier ts ?store') ! j =
       \<lparr>allowed = count ?e' + int j + 1 \<le> maxRequests config,
        remaining = max 0 (maxRequests config - (count ?e' + int j + 1)),
        rl_resetTime = resetTime ?e',
        retryAfter = max 0 (ceil1000 (resetTime ?e' - snd (ts ! j)))\<rparr>"
      by (rule Cons.IH)
    with p inc Suc show ?thesis
      by (simp add: limiter_unfold Let_def split_beta add.commute add.left_commute)
  qed
qed

lemma calls_window:
  assumes fresh: "fst (get (limiterKey config identifier) t0 store) = None"
    and window: "\<forall>(t, t') \<in> set ts. \<not> t0 + windowMs config < t"
    and i: "i < Suc (length ts)"
  shows "fst (calls config identifier ((t0, t0') # ts) store) ! i =
     \<lparr>allowed = int i + 1 \<le> maxRequests config,
      remaining = max 0 (maxRequests config - (int i + 1)),
      rl_resetTime = t0 + windowMs config,
      retryAfter = max 0 (ceil1000 (t0 + windowMs config - snd (((t0, t0') # ts) ! i)))\<rparr>"
proof -
  let ?key = "limiterKey config identifier"
  let ?e = "\<lparr>count = 1, firstRequest = t0, resetTime = t0 + windowMs config\<rparr>"
  let ?store' = "AList.update ?key ?e store"
  from fresh have inc: "increment ?key (windowMs config) t0 store = (?e, ?store')"
    by (rule increment_fresh)
  show ?thesis
  proof (cases i)
    case 0
    with inc show ?thesis
      by (simp add: limiter_unfold Let_def split_beta)
  next
    case (Suc j)
    have "map_of ?store' ?key = Some ?e"
      by (simp add: update_conv')
    moreover from window have "\<forall>(t, t') \<in> set ts. \<not> resetTime ?e < t"
      by simp
    moreover from i Suc have "j < length ts" by simp
    ultimately have "fst (calls config identifier ts ?store') ! j =
       \<lparr>allowed = count ?e + int j + 1 \<le> maxRequests config,
        remaining = max 0 (maxRequests config - (count ?e + int j + 1)),
        rl_resetTime = resetTime ?e,
        retryAfter = max 0 (ceil1000 (resetTime ?e - snd (ts ! j)))\<rparr>"
      by (rule calls_live)
    with inc Suc show ?thesis
      by (simp add: limiter_unfold Let_def split_beta add.commute add.left_commute)
  qed
qed

lemma length_calls: "length (fst (calls config identifier ts store)) = length ts"
  by (induction ts arbitrary: store) (auto simp: split_beta)

text \<open>
  The store keeps one entry per key, as a \<^verbatim>\<open>Map\<close> does: every operation preserves it.
  A call for another key and a sweep leave a live entry as it is.
\<close>

lemma distinct_increment:
  "distinct (map fst store) \<Longrightarrow> distinct (map fst (snd (increment key w now store)))"
  by (simp add: increment_def Let_def distinct_update split: option.splits)

lemma distinct_createRateLimiter:
  "distinct (map fst store) \<Longrightarrow>
     distinct (map fst (snd (createRateLimiter config identifier now now' store)))"
  by (simp add: limiter_unfold Let_def distinct_increment)

lemma distinct_cleanup:
  "distinct (map fst store) \<Longrightarrow> distinct (map fst (cleanup now store))"
  by (simp add: cleanup_filter_keys distinct_map_filter)

lemma distinct_get:
  "distinct (map fst store) \<Longrightarrow> distinct (map fst (snd (get key now store)))"
  by (simp add: get_def distinct_delete split: option.splits)

lemma cleanup_keeps_live:
  assumes "distinct (map fst store)" "map_of store key = Some entry" "\<not> resetTime entry < now"
  shows "map_of (cleanup now store) key = Some entry"
proof -
  from assms(2) have "(key, entry) \<in> set store"
    by (rule map_of_SomeD)
  with assms(3) have "(key, entry) \<in> set (filter (\<lambda>(k, e). \<not> resetTime e < now) store)"
    by simp
  with assms(1) have "(key, entry) \<in> set (cleanup now store)"
    by (simp add: cleanup_distinct_filter)
  with distinct_cleanup [OF assms(1)] show ?thesis
    by simp
qed

lemma createRateLimiter_other_key:
  "k \<noteq> limiterKey config identifier \<Longrightarrow>
     map_of (snd (createRateLimiter config identifier now now' store)) k = map_of store k"
  by (simp add: limiter_unfold Let_def increment_other_key)

subsection \<open>Claims on the rate limiter\<close>

text \<open>
  Claim C1, as amended. One call of the limiter for \<open>identifier\<close>, counted under \<open>key\<close>,
  with the clock at \<open>now\<close> inside \<^verbatim>\<open>increment\<close> and at \<open>now'\<close> for \<^verbatim>\<open>retryAfter\<close>:
  \<^item> if the key has no live entry (\<^verbatim>\<open>get\<close> would report none: never seen, or its
    \<^verbatim>\<open>resetTime\<close> is before \<open>now\<close>), the store then holds a fresh entry with count 1 and
    \<^verbatim>\<open>resetTime = now + windowMs\<close>, and the call is allowed exactly when
    \<^verbatim>\<open>1 <= maxRequests\<close>;
  \<^item> if the key has a live entry, the store then holds that entry with its count
    incremented, and the call is allowed exactly when the new count is at most
    \<^verbatim>\<open>maxRequests\<close>;
  \<^item> in every case \<^verbatim>\<open>remaining = max(0, maxRequests - count)\<close> and
    \<^verbatim>\<open>retryAfter = max(0, ceil((resetTime - now') / 1000))\<close> for the entry now stored;
  \<^item> consequently, when the call opens a window and the calls after it are made no later
    than \<^verbatim>\<open>now + windowMs\<close>, the call number \<open>i + 1\<close> is allowed exactly when
    \<^verbatim>\<open>i + 1 <= maxRequests\<close>: the first \<^verbatim>\<open>maxRequests\<close> calls are allowed, the next one
    is not, and \<^verbatim>\<open>remaining\<close> is \<^verbatim>\<open>max(0, maxRequests - (i + 1))\<close>.
\<close>

theorem createRateLimiter_contract:
  assumes call: "createRateLimiter config identifier now now' store = (r, store')"
    and key: "key = limiterKey config identifier"
  shows "(fst (get key now store) = None \<longrightarrow>
            map_of store' key = Some \<lparr>count = 1, firstRequest = now, resetTime = now + windowMs config\<rparr>
          \<and> allowed r = (1 \<le> maxRequests config))
       \<and> (\<forall>e. fst (get key now store) = Some e \<longrightarrow>
            map_of store' key = Some (e\<lparr>count := count e + 1\<rparr>)
          \<and> allowed r = (count e + 1 \<le> maxRequests config))
       \<and> (\<exists>e'. map_of store' key = Some e'
          \<and> allowed r = (count e' \<le> maxRequests config)
          \<and> remaining r = max 0 (maxRequests config - count e')
          \<and> rl_resetTime r = resetTime e'
          \<and> retryAfter r = max 0 \<lceil>real_of_int (resetTime e' - now') / 1000\<rceil>)
       \<and> (\<forall>ts i. fst (get key now store) = None
              \<and> (\<forall>(t, t') \<in> set ts. t \<le> now + windowMs config) \<and> i \<le> length ts \<longrightarrow>
            allowed (fst (calls config identifier ((now, now') # ts) store) ! i)
              = (int i + 1 \<le> maxRequests config)
          \<and> remaining (fst (calls config identifier ((now, now') # ts) store) ! i)
              = max 0 (maxRequests config - (int i + 1)))"
proof -
  let ?inc = "increment key (windowMs config) now store"
  from call key have r: "r = \<lparr>allowed = count (fst ?inc) \<le> maxRequests config,
           remaining = max 0 (maxRequests config - count (fst ?inc)),
           rl_resetTime = resetTime (fst ?inc),
           retryAfter = max 0 (ceil1000 (resetTime (fst ?inc) - now'))\<rparr>"
    and s: "store' = snd ?inc"
    by (simp_all add: limiter_unfold Let_def)
  have fresh: "map_of store' key = Some \<lparr>count = 1, firstRequest = now, resetTime = now + windowMs config\<rparr>
          \<and> allowed r = (1 \<le> maxRequests config)"
    if "fst (get key now store) = None"
    using increment_fresh [OF that, of "windowMs config"] r s
    by (simp add: update_conv')
  have live: "map_of store' key = Some (e\<lparr>count := count e + 1\<rparr>)
          \<and> allowed r = (count e + 1 \<le> maxRequests config)"
    if "fst (get key now store) = Some e" for e
    using increment_live [OF that, of "windowMs config"] r s
    by (simp add: update_conv')
  have every: "\<exists>e'. map_of store' key = Some e'
          \<and> allowed r = (count e' \<le> maxRequests config)
          \<and> remaining r = max 0 (maxRequests config - count e')
          \<and> rl_resetTime r = resetTime e'
          \<and> retryAfter r = max 0 \<lceil>real_of_int (resetTime e' - now') / 1000\<rceil>"
    using r s increment_stores_entry [of key "windowMs config" now store]
    by (simp add: ceil1000_ceiling)
  have run: "allowed (fst (calls config identifier ((now, now') # ts) store) ! i)
              = (int i + 1 \<le> maxRequests config)
          \<and> remaining (fst (calls config identifier ((now, now') # ts) store) ! i)
              = max 0 (maxRequests config - (int i + 1))"
    if "fst (get key now store) = None"
      and "\<forall>(t, t') \<in> set ts. t \<le> now + windowMs config" and "i \<le> length ts" for ts i
  proof -
    from that(1) key have "fst (get (limiterKey config identifier) now store) = None"
      by simp
    moreover from that(2) have "\<forall>(t, t') \<in> set ts. \<not> now + windowMs config < t"
      by auto
    moreover from that(3) have "i < Suc (length ts)"
      by simp
    ultimately have "fst (calls config identifier ((now, now') # ts) store) ! i =
       \<lparr>allowed = int i + 1 \<le> maxRequests config,
        remaining = max 0 (maxRequests config - (int i + 1)),
        rl_resetTime = now + windowMs config,
        retryAfter = max 0 (ceil1000 (now + windowMs config - snd (((now, now') # ts) ! i)))\<rparr>"
      by (rule calls_window)
    then show ?thesis
      by (simp del: calls.simps)
  qed
  from fresh live every run show ?thesis
    by blast
qed

text \<open>
  The login profile (5 requests per 15 minutes) on an empty store: the first call leaves 4
  remaining, the fifth call is allowed and the sixth, at the last millisecond of the
  window, is rejected.
\<close>

theorem createRateLimiter_contract_witness:
  "fst (get ''login:1.2.3.4'' 0 []) = None
   \<and> fst (createRateLimiter (RateLimitConfigs login) ''login:1.2.3.4'' 0 0 [])
       = \<lparr>allowed = True, remaining = 4, rl_resetTime = 900000, retryAfter = 900\<rparr>
   \<and> allowed (fst (calls (RateLimitConfigs login) ''login:1.2.3.4''
         [(0, 0), (1000, 1000), (2000, 2001), (3000, 3000), (4000, 4000), (900000, 900000)] []) ! 4)
   \<and> \<not> allowed (fst (calls (RateLimitConfigs login) ''login:1.2.3.4''
         [(0, 0), (1000, 1000), (2000, 2001), (3000, 3000), (4000, 4000), (900000, 900000)] []) ! 5)"
proof -
  let ?cfg = "RateLimitConfigs login"
  let ?ts = "[(1000, 1000), (2000, 2001), (3000, 3000), (4000, 4000), (900000, 900000)] :: (int \<times> int) list"
  obtain r store' where call: "createRateLimiter ?cfg ''login:1.2.3.4'' 0 0 [] = (r, store')"
    by (cases "createRateLimiter ?cfg ''login:1.2.3.4'' 0 0 []")
  have key: "''login:1.2.3.4'' = limiterKey ?cfg ''login:1.2.3.4''"
    by (simp add: limiterKey_def RateLimitConfigs_def)
  have fresh: "fst (get ''login:1.2.3.4'' 0 []) = None"
    by (simp add: get_def)
  have window: "\<forall>(t, t') \<in> set ?ts. t \<le> 0 + windowMs ?cfg"
    by (simp add: RateLimitConfigs_def)
  note c = createRateLimiter_contract [OF call key]
  from c fresh obtain e' where e': "map_of store' ''login:1.2.3.4'' = Some \<lparr>count = 1, firstRequest = 0, resetTime = 0 + windowMs ?cfg\<rparr>"
      "allowed r = (1 \<le> maxRequests ?cfg)"
      "map_of store' ''login:1.2.3.4'' = Some e'"
      "remaining r = max 0 (maxRequests ?cfg - count e')"
      "rl_resetTime r = resetTime e'"
      "retryAfter r = max 0 \<lceil>real_of_int (resetTime e' - 0) / 1000\<rceil>"
    by blast
  then have "r = \<lparr>allowed = True, remaining = 4, rl_resetTime = 900000, retryAfter = 900\<rparr>"
    by (cases r) (auto simp: RateLimitConfigs_def)
  moreover from c fresh window
  have "allowed (fst (calls ?cfg ''login:1.2.3.4'' ((0, 0) # ?ts) []) ! 4) = (int 4 + 1 \<le> maxRequests ?cfg)"
    by (elim conjE allE [where x = "?ts"] allE [where x = "4::nat"]) (simp del: calls.simps)
  moreover from c fresh window
  have "allowed (fst (calls ?cfg ''login:1.2.3.4'' ((0, 0) # ?ts) []) ! 5) = (int 5 + 1 \<le> maxRequests ?cfg)"
    by (elim conjE allE [where x = "?ts"] allE [where x = "5::nat"]) (simp del: calls.simps)
  ultimately show ?thesis
    using fresh call by (simp add: RateLimitConfigs_def del: calls.simps)
qed

text \<open>
  Claim C1 as stated, for every profile, fails at a profile with \<^verbatim>\<open>maxRequests = 0\<close>:
  the first call for a key never seen creates the entry with count 1 and is rejected.
\<close>

theorem createRateLimiter_zero_cap_counterexample:
  "fst (get ''k'' 0 []) = None
   \<and> \<not> allowed (fst (createRateLimiter
         \<lparr>windowMs = 60000, maxRequests = 0, message = ''Rate limited'', statusCode = 429,
          keyGenerator = None\<rparr> ''k'' 0 0 []))"
  by (simp add: get_def createRateLimiter_def increment_def Let_def)

text \<open>
  Claim C2, as amended. When the stored entry of the key has \<^verbatim>\<open>resetTime < now\<close>,
  \<^verbatim>\<open>get\<close> reports no entry and deletes it, and the next call of the limiter stores a fresh
  entry with count 1 and \<^verbatim>\<open>resetTime = now + windowMs\<close>. Its result is the result of the
  same call on the store without the old entry, it does not depend on the old entry (so
  not on how many calls the expired window saw), and it is allowed exactly when
  \<^verbatim>\<open>1 <= maxRequests\<close>.
\<close>

theorem window_reset:
  assumes entry: "map_of store key = Some e"
    and expired: "resetTime e < now"
    and key: "key = limiterKey config identifier"
    and call: "createRateLimiter config identifier now now' store = (r, store')"
  shows "get key now store = (None, AList.delete key store)
       \<and> map_of store' key = Some \<lparr>count = 1, firstRequest = now, resetTime = now + windowMs config\<rparr>
       \<and> r = fst (createRateLimiter config identifier now now' (AList.delete key store))
       \<and> r = \<lparr>allowed = 1 \<le> maxRequests config,
               remaining = max 0 (maxRequests config - 1),
               rl_resetTime = now + windowMs config,
               retryAfter = max 0 \<lceil>real_of_int (now + windowMs config - now') / 1000\<rceil>\<rparr>"
proof -
  let ?new = "\<lparr>count = 1, firstRequest = now, resetTime = now + windowMs config\<rparr>"
  from entry expired have g: "get key now store = (None, AList.delete key store)"
    by (simp add: get_def)
  then have "fst (get key now store) = None"
    by simp
  then have inc: "increment key (windowMs config) now store = (?new, AList.update key ?new store)"
    by (rule increment_fresh)
  have "fst (get key now (AList.delete key store)) = None"
    by (simp add: get_none_iff delete_conv')
  then have inc': "increment key (windowMs config) now (AList.delete key store)
      = (?new, AList.update key ?new (AList.delete key store))"
    by (rule increment_fresh)
  from call key inc have r: "r = \<lparr>allowed = 1 \<le> maxRequests config,
               remaining = max 0 (maxRequests config - 1),
               rl_resetTime = now + windowMs config,
               retryAfter = max 0 \<lceil>real_of_int (now + windowMs config - now') / 1000\<rceil>\<rparr>"
    and s: "store' = AList.update key ?new store"
    by (simp_all add: limiter_unfold Let_def ceil1000_ceiling)
  from key inc' r have "r = fst (createRateLimiter config identifier now now' (AList.delete key store))"
    by (simp add: limiter_unfold Let_def ceil1000_ceiling)
  with g r s show ?thesis
    by (simp add: update_conv')
qed

text \<open>
  The login profile, a key with 9 calls counted in a window that ended at 900000, called
  again one millisecond later.
\<close>

theorem window_reset_witness:
  "map_of [(''login:1.2.3.4'', \<lparr>count = 9, firstRequest = 0, resetTime = 900000\<rparr>)] ''login:1.2.3.4''
      = Some \<lparr>count = 9, firstRequest = 0, resetTime = 900000\<rparr>
   \<and> resetTime \<lparr>count = 9, firstRequest = 0, resetTime = 900000\<rparr> < 900001
   \<and> createRateLimiter (RateLimitConfigs login) ''login:1.2.3.4'' 900001 900001
        [(''login:1.2.3.4'', \<lparr>count = 9, firstRequest = 0, resetTime = 900000\<rparr>)]
      = (\<lparr>allowed = True, remaining = 4, rl_resetTime = 1800001, retryAfter = 900\<rparr>,
         [(''login:1.2.3.4'', \<lparr>count = 1, firstRequest = 900001, resetTime = 1800001\<rparr>)])"
proof -
  let ?cfg = "RateLimitConfigs login"
  let ?e = "\<lparr>count = 9, firstRequest = 0, resetTime = 900000\<rparr>"
  let ?store = "[(''login:1.2.3.4'', ?e)]"
  have entry: "map_of ?store ''login:1.2.3.4'' = Some ?e"
    by simp
  have expired: "resetTime ?e < 900001"
    by simp
  have key: "''login:1.2.3.4'' = limiterKey ?cfg ''login:1.2.3.4''"
    by (simp add: limiterKey_def RateLimitConfigs_def)
  have call: "createRateLimiter ?cfg ''login:1.2.3.4'' 900001 900001 ?store =
      (fst (createRateLimiter ?cfg ''login:1.2.3.4'' 900001 900001 ?store),
       [(''login:1.2.3.4'', \<lparr>count = 1, firstRequest = 900001, resetTime = 1800001\<rparr>)])"
    by (simp add: limiter_unfold limiterKey_def increment_def RateLimitConfigs_def Let_def)
  from window_reset [OF entry expired key call] entry expired call show ?thesis
    by (simp add: RateLimitConfigs_def)
qed

text \<open>
  Claim C2 as stated fails at a profile with \<^verbatim>\<open>maxRequests = 0\<close>: the call after the
  window has elapsed resets the count to 1 and is rejected.
\<close>

theorem window_reset_zero_cap_counterexample:
  "resetTime \<lparr>count = 7, firstRequest = 0, resetTime = 60000\<rparr> < 60001
   \<and> \<not> allowed (fst (createRateLimiter
         \<lparr>windowMs = 60000, maxRequests = 0, message = ''Rate limited'', statusCode = 429,
          keyGenerator = None\<rparr> ''k'' 60001 60001
         [(''k'', \<lparr>count = 7, firstRequest = 0, resetTime = 60000\<rparr>)]))"
  by (simp add: createRateLimiter_def increment_def Let_def)

text \<open>
  Claim C3. After a pass of \<^verbatim>\<open>cleanup\<close> with the clock at \<open>now\<close>, no entry with
  \<^verbatim>\<open>resetTime < now\<close> is left in the store, whether or not its key was requested again;
  on a store with one entry per key (a \<^verbatim>\<open>Map\<close>) the pass keeps exactly the other entries,
  in their order; the pass on an empty store returns the empty store; and the timer that
  runs it has a period of 60 seconds.
\<close>

theorem cleanup_sweep:
  "(\<forall>(key, entry) \<in> set (cleanup now store). \<not> resetTime entry < now)
   \<and> (distinct (map fst store) \<longrightarrow>
        cleanup now store = filter (\<lambda>(key, entry). \<not> resetTime entry < now) store)
   \<and> cleanup now [] = []
   \<and> CLEANUP_INTERVAL_MS = 60 * 1000"
proof -
  have "\<forall>(key, entry) \<in> set (cleanup now store). \<not> resetTime entry < now"
    using cleanup_no_expired [of _ _ now store] by blast
  moreover have "distinct (map fst store) \<longrightarrow>
        cleanup now store = filter (\<lambda>(key, entry). \<not> resetTime entry < now) store"
    using cleanup_distinct_filter [of store now] by blast
  moreover have "cleanup now [] = []"
    by (simp add: cleanup_def expiredKeys_def)
  moreover have "CLEANUP_INTERVAL_MS = 60 * 1000"
    by (simp add: CLEANUP_INTERVAL_MS_def)
  ultimately show ?thesis
    by blast
qed

text \<open>
  A sweep at 900002 over three keys, none of them requested since: the two entries whose
  window has ended are removed, the live one stays.
\<close>

theorem cleanup_sweep_witness:
  "distinct (map fst [(''login:1.1.1.1'', \<lparr>count = 6, firstRequest = 0, resetTime = 900000\<rparr>),
                      (''packages:2.2.2.2'', \<lparr>count = 1, firstRequest = 890000, resetTime = 950000\<rparr>),
                      (''gallery:3.3.3.3'', \<lparr>count = 2, firstRequest = 840001, resetTime = 900001\<rparr>)])
   \<and> cleanup 900002 [(''login:1.1.1.1'', \<lparr>count = 6, firstRequest = 0, resetTime = 900000\<rparr>),
                      (''packages:2.2.2.2'', \<lparr>count = 1, firstRequest = 890000, resetTime = 950000\<rparr>),
                      (''gallery:3.3.3.3'', \<lparr>count = 2, firstRequest = 840001, resetTime = 900001\<rparr>)]
       = [(''packages:2.2.2.2'', \<lparr>count = 1, firstRequest = 890000, resetTime = 950000\<rparr>)]"
proof -
  let ?store = "[(''login:1.1.1.1'', \<lparr>count = 6, firstRequest = 0, resetTime = 900000\<rparr>),
                 (''packages:2.2.2.2'', \<lparr>count = 1, firstRequest = 890000, resetTime = 950000\<rparr>),
                 (''gallery:3.3.3.3'', \<lparr>count = 2, firstRequest = 840001, resetTime = 900001\<rparr>)]"
  have d: "distinct (map fst ?store)"
    by simp
  with cleanup_sweep [of 900002 ?store]
  have "cleanup 900002 ?store = filter (\<lambda>(key, entry). \<not> resetTime entry < 900002) ?store"
    by blast
  with d show ?thesis
    by simp
qed

section \<open>Properties of the client identity, the session tokens and the credential check\<close>

subsection \<open>Auxiliary facts\<close>

lemma split_str_not_Nil: "split_str sep s \<noteq> []"
  by (induction s) (auto split: list.splits)

lemma hd_split_str: "hd (split_str sep s) = takeWhile (\<lambda>c. c \<noteq> sep) s"
  using split_str_not_Nil [of sep]
  by (induction s) (auto split: list.splits)

lemma trim_no_space:
  assumes "s \<noteq> []" "\<not> isWhiteSpace (hd s)" "\<not> isWhiteSpace (last s)"
  shows "trim s = s"
proof -
  from assms have "dropWhile isWhiteSpace s = s"
    by (cases s) simp_all
  moreover from assms have "dropWhile isWhiteSpace (rev s) = rev s"
    by (cases "rev s") (simp_all add: last_rev [symmetric] hd_rev)
  ultimately show ?thesis
    by (simp add: trim_def)
qed

lemma jwtVerify_createSession:
  "jwtVerify sig (createSession sig user t1 t2 t3) now =
     (if epoch t3 + 7200 \<le> epoch now then Inl JWTExpired
      else Inr \<lparr>username = Some user, expiresAt = DateString (t1 + 7200000),
                iat = Number (epoch t2), nbf = Undefined, exp_claim = Number (epoch t3 + 7200)\<rparr>)"
  by (simp add: jwtVerify_def createSession_def validateClaims_def isNumber_def hmacAlg_def
      SESSION_EXPIRATION_HOURS_def secs_hours_def Let_def)

lemma verifySession_createSession:
  "verifySession sig (createSession sig user t1 t2 t3) now now' =
     (if epoch now < epoch t3 + 7200 \<and> now' \<le> t1 + 7200000
      then Some \<lparr>sp_username = Some user, sp_expiresAt = Some (t1 + 7200000)\<rparr>
      else None)"
  by (simp add: verifySession_def jwtVerify_createSession newDate_def date_less_def Let_def)

lemma epoch_mono: "a \<le> b \<Longrightarrow> epoch a \<le> epoch b"
  by (simp add: epoch_def zdiv_mono1)

lemma epoch_add_seconds: "epoch (a + 1000 * k) = epoch a + k"
  by (simp add: epoch_def)

lemma validateClaims_Inr: "validateClaims payload now = Inr q \<Longrightarrow> q = payload"
  by (simp add: validateClaims_def split: if_splits)

lemma verifySession_JWS:
  "verifySession sig (JWS a p s u) now now' =
     (if hmacAlg a \<and> s = sig a p \<and> validateClaims p (epoch now) = Inr p
         \<and> \<not> date_less (newDate (expiresAt p)) (Some now')
      then Some \<lparr>sp_username = username p, sp_expiresAt = newDate (expiresAt p)\<rparr>
      else None)"
proof (cases "validateClaims p (epoch now)")
  case (Inl e)
  then show ?thesis
    by (simp add: verifySession_def jwtVerify_def)
next
  case (Inr q)
  then have "q = p"
    by (rule validateClaims_Inr)
  with Inr show ?thesis
    by (simp add: verifySession_def jwtVerify_def Let_def)
qed

subsection \<open>Claims\<close>

text \<open>
  Claim C4, as amended. \<^verbatim>\<open>getClientIP\<close> follows the priority chain on the headers that
  are present with a non-empty value; a header that is absent or present with the empty
  value is skipped:
  \<^item> \<^verbatim>\<open>x-forwarded-for\<close> non-empty: the result is its part before the first comma,
    trimmed;
  \<^item> otherwise \<^verbatim>\<open>cf-connecting-ip\<close> non-empty: the result is its value;
  \<^item> otherwise \<^verbatim>\<open>x-real-ip\<close> non-empty: the result is its value;
  \<^item> otherwise the result is the literal \<^verbatim>\<open>unknown\<close>.
  Nothing is validated: any non-empty \<^verbatim>\<open>x-forwarded-for\<close> value without a comma and
  without white space at its ends is returned as it is, an IP address or not.
\<close>

theorem getClientIP_priority_chain:
  "(\<forall>v. headers ''x-forwarded-for'' = Some v \<and> v \<noteq> [] \<longrightarrow>
        getClientIP headers = trim (takeWhile (\<lambda>c. c \<noteq> CHR '','') v))
   \<and> (\<forall>v. headers ''x-forwarded-for'' \<in> {None, Some []}
          \<and> headers ''cf-connecting-ip'' = Some v \<and> v \<noteq> [] \<longrightarrow>
        getClientIP headers = v)
   \<and> (\<forall>v. headers ''x-forwarded-for'' \<in> {None, Some []}
          \<and> headers ''cf-connecting-ip'' \<in> {None, Some []}
          \<and> headers ''x-real-ip'' = Some v \<and> v \<noteq> [] \<longrightarrow>
        getClientIP headers = v)
   \<and> (headers ''x-forwarded-for'' \<in> {None, Some []}
          \<and> headers ''cf-connecting-ip'' \<in> {None, Some []}
          \<and> headers ''x-real-ip'' \<in> {None, Some []} \<longrightarrow>
        getClientIP headers = ''unknown'')
   \<and> (\<forall>v. headers ''x-forwarded-for'' = Some v \<and> v \<noteq> [] \<and> CHR '','' \<notin> set v
          \<and> \<not> isWhiteSpace (hd v) \<and> \<not> isWhiteSpace (last v) \<longrightarrow>
        getClientIP headers = v)"
proof -
  have first: "getClientIP headers = trim (takeWhile (\<lambda>c. c \<noteq> CHR '','') v)"
    if "headers ''x-forwarded-for'' = Some v" "v \<noteq> []" for v
    using that by (simp add: getClientIP_def truthy_def hd_split_str)
  have second: "getClientIP headers = v"
    if "headers ''x-forwarded-for'' \<in> {None, Some []}"
      "headers ''cf-connecting-ip'' = Some v" "v \<noteq> []" for v
    using that by (auto simp: getClientIP_def truthy_def Let_def)
  have third: "getClientIP headers = v"
    if "headers ''x-forwarded-for'' \<in> {None, Some []}"
      "headers ''cf-connecting-ip'' \<in> {None, Some []}"
      "headers ''x-real-ip'' = Some v" "v \<noteq> []" for v
    using that by (auto simp: getClientIP_def truthy_def Let_def)
  have fourth: "getClientIP headers = ''unknown''"
    if "headers ''x-forwarded-for'' \<in> {None, Some []}"
      "headers ''cf-connecting-ip'' \<in> {None, Some []}"
      "headers ''x-real-ip'' \<in> {None, Some []}"
    using that by (auto simp: getClientIP_def truthy_def Let_def)
  have asis: "getClientIP headers = v"
    if "headers ''x-forwarded-for'' = Some v" "v \<noteq> []" "CHR '','' \<notin> set v"
      "\<not> isWhiteSpace (hd v)" "\<not> isWhiteSpace (last v)" for v
  proof -
    from that(3) have "takeWhile (\<lambda>c. c \<noteq> CHR '','') v = v"
      by (intro takeWhile_eq_all_conv [THEN iffD2]) auto
    with first [OF that(1,2)] trim_no_space [OF that(2,4,5)] show ?thesis
      by simp
  qed
  from first second third fourth asis show ?thesis
    by blast
qed

text \<open>
  One request for each link of the chain, and one whose \<^verbatim>\<open>x-forwarded-for\<close> is no IP
  address.
\<close>

theorem getClientIP_priority_chain_witness:
  "getClientIP [''x-forwarded-for'' \<mapsto> '' 203.0.113.5 , 10.0.0.1'', ''cf-connecting-ip'' \<mapsto> ''198.51.100.7'']
      = ''203.0.113.5''
   \<and> getClientIP [''x-real-ip'' \<mapsto> ''192.0.2.9'', ''cf-connecting-ip'' \<mapsto> ''198.51.100.7''] = ''198.51.100.7''
   \<and> getClientIP [''x-real-ip'' \<mapsto> ''192.0.2.9''] = ''192.0.2.9''
   \<and> getClientIP Map.empty = ''unknown''
   \<and> getClientIP [''x-forwarded-for'' \<mapsto> ''not-an-ip''] = ''not-an-ip''"
proof -
  let ?h1 = "[''x-forwarded-for'' \<mapsto> '' 203.0.113.5 , 10.0.0.1'', ''cf-connecting-ip'' \<mapsto> ''198.51.100.7'']"
  let ?h2 = "[''x-real-ip'' \<mapsto> ''192.0.2.9'', ''cf-connecting-ip'' \<mapsto> ''198.51.100.7'']"
  let ?h3 = "[''x-real-ip'' \<mapsto> ''192.0.2.9'']"
  let ?h5 = "[''x-forwarded-for'' \<mapsto> ''not-an-ip'']"
  have "getClientIP ?h1 = trim (takeWhile (\<lambda>c. c \<noteq> CHR '','') '' 203.0.113.5 , 10.0.0.1'')"
    using getClientIP_priority_chain [of ?h1] by simp
  then have 1: "getClientIP ?h1 = ''203.0.113.5''"
    by (simp add: trim_def isWhiteSpace_def)
  have 2: "getClientIP ?h2 = ''198.51.100.7''"
    using getClientIP_priority_chain [of ?h2] by simp
  have 3: "getClientIP ?h3 = ''192.0.2.9''"
    using getClientIP_priority_chain [of ?h3] by simp
  have 4: "getClientIP Map.empty = ''unknown''"
    using getClientIP_priority_chain [of Map.empty] by simp
  have 5: "getClientIP ?h5 = ''not-an-ip''"
    using getClientIP_priority_chain [of ?h5] by (simp add: trim_def isWhiteSpace_def)
  from 1 2 3 4 5 show ?thesis
    by blast
qed

text \<open>
  Claim C4 as stated fails on a request whose \<^verbatim>\<open>x-forwarded-for\<close> header is present with
  the empty value: the first element of its list, trimmed, is the empty string, and the
  function returns the value of \<^verbatim>\<open>cf-connecting-ip\<close> instead.
\<close>

theorem getClientIP_empty_forwarded_counterexample:
  "[''x-forwarded-for'' \<mapsto> '''', ''cf-connecting-ip'' \<mapsto> ''198.51.100.7''] ''x-forwarded-for'' = Some ''''
   \<and> getClientIP [''x-forwarded-for'' \<mapsto> '''', ''cf-connecting-ip'' \<mapsto> ''198.51.100.7''] = ''198.51.100.7''
   \<and> trim (hd (split_str CHR '','' '''')) = ''''"
  by (simp add: getClientIP_def truthy_def trim_def)

text \<open>
  Claim C5. A token issued for any identity (empty or not) with the clock at \<open>T0\<close> and
  verified with the clock still at \<open>T0\<close> gives a session, not \<^verbatim>\<open>null\<close>, whose username
  is that identity and whose \<^verbatim>\<open>expiresAt\<close> is \<open>T0\<close> plus two hours.
\<close>

theorem session_round_trip:
  "verifySession sig (createSession sig user T0 T0 T0) T0 T0 =
     Some \<lparr>sp_username = Some user, sp_expiresAt = Some (T0 + 2 * 60 * 60 * 1000)\<rparr>"
  by (simp add: verifySession_createSession)

text \<open>
  Claim C6, as amended. For a token issued with the clock at \<open>T0\<close> and verified with the
  clock at \<open>now\<close>, its signature intact:
  \<^item> at every \<open>now\<close> from \<open>T0\<close> plus two hours on, the result is \<^verbatim>\<open>null\<close>;
  \<^item> the token is valid exactly while the whole second of \<open>now\<close> is before the whole
    second of \<open>T0\<close> plus 7200, and \<^verbatim>\<open>null\<close> from that second on;
  \<^item> so it is valid at every \<open>now\<close> up to one second before \<open>T0\<close> plus two hours (at
    \<open>T0\<close> plus 1h59m for one);
  \<^item> the token carries \<^verbatim>\<open>expiresAt\<close> = \<open>T0\<close> plus two hours in milliseconds, and
    \<^verbatim>\<open>exp = iat + 7200\<close> in seconds.
\<close>

theorem session_expiry:
  "(T0 + 2 * 60 * 60 * 1000 \<le> now \<longrightarrow> verifySession sig (createSession sig user T0 T0 T0) now now = None)
   \<and> (epoch now < epoch T0 + 2 * 60 * 60 \<longrightarrow>
        verifySession sig (createSession sig user T0 T0 T0) now now
          = Some \<lparr>sp_username = Some user, sp_expiresAt = Some (T0 + 2 * 60 * 60 * 1000)\<rparr>)
   \<and> (epoch T0 + 2 * 60 * 60 \<le> epoch now \<longrightarrow> verifySession sig (createSession sig user T0 T0 T0) now now = None)
   \<and> (now \<le> T0 + 2 * 60 * 60 * 1000 - 1000 \<longrightarrow>
        verifySession sig (createSession sig user T0 T0 T0) now now \<noteq> None)
   \<and> (\<exists>s. createSession sig user T0 T0 T0
          = JWS HS256 \<lparr>username = Some user, expiresAt = DateString (T0 + 2 * 60 * 60 * 1000),
                 iat = Number (epoch T0), nbf = Undefined,
                 exp_claim = Number (epoch T0 + 2 * 60 * 60)\<rparr> s 0)"
proof -
  let ?v = "verifySession sig (createSession sig user T0 T0 T0) now now"
  have late: "?v = None" if "T0 + 7200000 \<le> now"
  proof -
    from that have "epoch (T0 + 1000 * 7200) \<le> epoch now"
      by (intro epoch_mono) simp
    then have "epoch T0 + 7200 \<le> epoch now"
      by (simp only: epoch_add_seconds)
    then show ?thesis
      by (simp add: verifySession_createSession)
  qed
  have early: "?v = Some \<lparr>sp_username = Some user, sp_expiresAt = Some (T0 + 7200000)\<rparr>"
    if "epoch now < epoch T0 + 7200"
  proof -
    have "now \<le> T0 + 7200000"
    proof (rule ccontr)
      assume "\<not> now \<le> T0 + 7200000"
      then have "T0 + 7200000 \<le> now" by simp
      then have "epoch (T0 + 1000 * 7200) \<le> epoch now"
        by (intro epoch_mono) simp
      with that show False
        by (simp only: epoch_add_seconds)
    qed
    with that show ?thesis
      by (simp add: verifySession_createSession)
  qed
  have sec: "?v = None" if "epoch T0 + 7200 \<le> epoch now"
    using that by (simp add: verifySession_createSession)
  have before: "?v \<noteq> None" if "now \<le> T0 + 7200000 - 1000"
  proof -
    from that have "epoch now \<le> epoch (T0 + 1000 * 7199)"
      by (intro epoch_mono) simp
    then have "epoch now < epoch T0 + 7200"
      by (simp only: epoch_add_seconds)
    with early show ?thesis by simp
  qed
  have tok: "\<exists>s. createSession sig user T0 T0 T0
          = JWS HS256 \<lparr>username = Some user, expiresAt = DateString (T0 + 7200000),
                 iat = Number (epoch T0), nbf = Undefined,
                 exp_claim = Number (epoch T0 + 7200)\<rparr> s 0"
    by (simp add: createSession_def SESSION_EXPIRATION_HOURS_def secs_hours_def Let_def)
  from late early sec before tok show ?thesis
    by simp
qed

text \<open>
  A token issued at time 0: \<^verbatim>\<open>null\<close> at 2h0m1s, valid at 1h59m.
\<close>

theorem session_expiry_witness:
  "(0::int) + 2 * 60 * 60 * 1000 \<le> 7201000
   \<and> verifySession (\<lambda>a p. ''mac'') (createSession (\<lambda>a p. ''mac'') ''admin@russoluxtours.de'' 0 0 0) 7201000 7201000 = None
   \<and> epoch 7140000 < epoch 0 + 2 * 60 * 60
   \<and> verifySession (\<lambda>a p. ''mac'') (createSession (\<lambda>a p. ''mac'') ''admin@russoluxtours.de'' 0 0 0) 7140000 7140000
       = Some \<lparr>sp_username = Some ''admin@russoluxtours.de'', sp_expiresAt = Some 7200000\<rparr>"
proof -
  let ?sig = "\<lambda>(a :: alg) (p :: JWTPayload). ''mac''"
  have late: "(0::int) + 2 * 60 * 60 * 1000 \<le> 7201000"
    by simp
  have early: "epoch 7140000 < epoch 0 + 2 * 60 * 60"
    by (simp add: epoch_def)
  from late session_expiry [of 0 7201000 ?sig "''admin@russoluxtours.de''"]
  have 1: "verifySession ?sig (createSession ?sig ''admin@russoluxtours.de'' 0 0 0) 7201000 7201000 = None"
    by blast
  from early session_expiry [of 0 7140000 ?sig "''admin@russoluxtours.de''"]
  have 2: "verifySession ?sig (createSession ?sig ''admin@russoluxtours.de'' 0 0 0) 7140000 7140000
       = Some \<lparr>sp_username = Some ''admin@russoluxtours.de'', sp_expiresAt = Some (0 + 2 * 60 * 60 * 1000)\<rparr>"
    by blast
  from late early 1 2 show ?thesis
    by simp
qed

text \<open>
  Claim C6 as stated, valid at every clock strictly before \<open>T0\<close> plus two hours, fails for
  a token issued half a second after a whole second: it is refused half a second before
  \<open>T0\<close> plus two hours, when the library finds \<^verbatim>\<open>exp <= now\<close> in whole seconds.
\<close>

theorem session_expiry_subsecond_counterexample:
  "(7200000::int) < 500 + 2 * 60 * 60 * 1000
   \<and> verifySession (\<lambda>a p. ''mac'') (createSession (\<lambda>a p. ''mac'') ''admin@russoluxtours.de'' 500 500 500) 7200000 7200000 = None"
  by (simp add: verifySession_createSession epoch_def)





text \<open>
  Claim C9, what the code does instead. The result of \<^verbatim>\<open>verifyCredentials\<close> is true
  exactly when the email is the constant \<^verbatim>\<open>TARGET_EMAIL\<close> and \<^verbatim>\<open>bcrypt.compare\<close> accepts
  the password for the constant \<^verbatim>\<open>TARGET_HASH\<close>; the configured \<^verbatim>\<open>ADMIN_EMAIL\<close> and
  \<^verbatim>\<open>ADMIN_PASSWORD\<close> are read and never used. With \<^verbatim>\<open>ADMIN_EMAIL = owner@example.com\<close>
  configured, that identity is refused whatever the password and the configured hash are.
\<close>

theorem verifyCredentials_hardcoded:
  "fst (verifyCredentials compare env email password)
      = (email = TARGET_EMAIL \<and> compare password TARGET_HASH = Inr True)
   \<and> fst (verifyCredentials compare \<lparr>ADMIN_EMAIL = ''owner@example.com'', ADMIN_PASSWORD = hash\<rparr>
          ''owner@example.com'' password) = False
   \<and> verifyCredentials compare env email password
      = verifyCredentials compare \<lparr>ADMIN_EMAIL = TARGET_EMAIL, ADMIN_PASSWORD = TARGET_HASH\<rparr> email password"
  by (auto simp: verifyCredentials_def TARGET_EMAIL_def Let_def split: sum.splits)

text \<open>
  Claim C10, as amended. For a payload whose \<^verbatim>\<open>expiresAt\<close> claim is absent or a string
  that does not parse as a date, \<^verbatim>\<open>new Date(payload.expiresAt)\<close> is an Invalid Date, the
  additional check \<^verbatim>\<open>expiresAt < new Date()\<close> is false at every clock, and every token for
  which \<^verbatim>\<open>jwtVerify\<close> returns that payload gives a session whose \<^verbatim>\<open>expiresAt\<close> is the
  Invalid Date. When the payload is correctly signed under an HMAC algorithm, the token
  is refused exactly when the library's validation of the registered claims refuses it:
  an \<^verbatim>\<open>exp\<close> that has passed, an \<^verbatim>\<open>nbf\<close> in the future, or an \<^verbatim>\<open>iat\<close>, \<^verbatim>\<open>nbf\<close> or
  \<^verbatim>\<open>exp\<close> that is not a number.
\<close>

theorem verifySession_unparsable_expiry:
  assumes "expiresAt payload = Undefined \<or> expiresAt payload = OtherString str"
    and "hmacAlg a"
  shows "newDate (expiresAt payload) = None
       \<and> \<not> date_less (newDate (expiresAt payload)) (Some now')
       \<and> (\<forall>tok. jwtVerify sig tok now = Inr payload \<longrightarrow>
            verifySession sig tok now now'
              = Some \<lparr>sp_username = username payload, sp_expiresAt = None\<rparr>)
       \<and> verifySession sig (JWS a payload (sig a payload) u) now now'
            = (case validateClaims payload (epoch now) of
                 Inl error \<Rightarrow> None
               | Inr accepted \<Rightarrow> Some \<lparr>sp_username = username payload, sp_expiresAt = None\<rparr>)"
proof -
  from assms(1) have nan: "newDate (expiresAt payload) = None"
    by (auto simp: newDate_def)
  then have vacuous: "\<not> date_less (newDate (expiresAt payload)) (Some now')"
    by (simp add: date_less_def)
  have accepted: "\<forall>tok. jwtVerify sig tok now = Inr payload \<longrightarrow>
            verifySession sig tok now now'
              = Some \<lparr>sp_username = username payload, sp_expiresAt = None\<rparr>"
    using nan by (simp add: verifySession_def date_less_def)
  have lib: "verifySession sig (JWS a payload (sig a payload) u) now now'
            = (case validateClaims payload (epoch now) of
                 Inl error \<Rightarrow> None
               | Inr accepted \<Rightarrow> Some \<lparr>sp_username = username payload, sp_expiresAt = None\<rparr>)"
    using nan vacuous assms(2) validateClaims_Inr [of payload "epoch now"]
    by (auto simp: verifySession_JWS split: sum.splits)
  from nan vacuous accepted lib show ?thesis
    by - (intro conjI; assumption)
qed

text \<open>
  A signed payload with \<^verbatim>\<open>expiresAt = "tomorrow"\<close> and no \<^verbatim>\<open>exp\<close>, verified in the year
  2100.
\<close>

theorem verifySession_unparsable_expiry_witness:
  "expiresAt \<lparr>username = Some ''admin@russoluxtours.de'', expiresAt = OtherString ''tomorrow'',
              iat = Undefined, nbf = Undefined, exp_claim = Undefined\<rparr> = OtherString ''tomorrow''
   \<and> hmacAlg HS256
   \<and> verifySession Pair
        (JWS HS256 \<lparr>username = Some ''admin@russoluxtours.de'', expiresAt = OtherString ''tomorrow'',
              iat = Undefined, nbf = Undefined, exp_claim = Undefined\<rparr>
          (HS256, \<lparr>username = Some ''admin@russoluxtours.de'', expiresAt = OtherString ''tomorrow'',
              iat = Undefined, nbf = Undefined, exp_claim = Undefined\<rparr>) 0)
        4102444800000 4102444800000
      = Some \<lparr>sp_username = Some ''admin@russoluxtours.de'', sp_expiresAt = None\<rparr>"
proof -
  let ?p = "\<lparr>username = Some ''admin@russoluxtours.de'', expiresAt = OtherString ''tomorrow'',
              iat = Undefined, nbf = Undefined, exp_claim = Undefined\<rparr>"
  have h: "expiresAt ?p = Undefined \<or> expiresAt ?p = OtherString ''tomorrow''"
    by simp
  have a: "hmacAlg HS256"
    by (simp add: hmacAlg_def)
  have v: "validateClaims ?p (epoch 4102444800000) = Inr ?p"
    by (simp add: validateClaims_def)
  from verifySession_unparsable_expiry [OF h a, of 4102444800000 Pair 4102444800000 0] v a
  show ?thesis
    by simp
qed

text \<open>
  Claim C10 as stated, only the library's expiry enforcement can refuse such a token,
  fails for signed payloads with no \<^verbatim>\<open>expiresAt\<close> and no \<^verbatim>\<open>exp\<close>, so with nothing to
  expire: one with an \<^verbatim>\<open>nbf\<close> in the year 2100 and one with an \<^verbatim>\<open>iat\<close> that is not a
  number are refused.
\<close>

theorem verifySession_not_before_counterexample:
  "expiresAt \<lparr>username = Some ''admin@russoluxtours.de'', expiresAt = Undefined,
              iat = Undefined, nbf = Number 4102444800, exp_claim = Undefined\<rparr> = Undefined
   \<and> exp_claim \<lparr>username = Some ''admin@russoluxtours.de'', expiresAt = Undefined,
              iat = Undefined, nbf = Number 4102444800, exp_claim = Undefined\<rparr> = Undefined
   \<and> verifySession Pair
        (JWS HS256 \<lparr>username = Some ''admin@russoluxtours.de'', expiresAt = Undefined,
              iat = Undefined, nbf = Number 4102444800, exp_claim = Undefined\<rparr>
          (HS256, \<lparr>username = Some ''admin@russoluxtours.de'', expiresAt = Undefined,
              iat = Undefined, nbf = Number 4102444800, exp_claim = Undefined\<rparr>) 0)
        1000 1000 = None
   \<and> verifySession Pair
        (JWS HS256 \<lparr>username = Some ''admin@russoluxtours.de'', expiresAt = Undefined,
              iat = OtherString ''yesterday'', nbf = Undefined, exp_claim = Undefined\<rparr>
          (HS256, \<lparr>username = Some ''admin@russoluxtours.de'', expiresAt = Undefined,
              iat = OtherString ''yesterday'', nbf = Undefined, exp_claim = Undefined\<rparr>) 0)
        1000 1000 = None"
  by (simp add: verifySession_def jwtVerify_def validateClaims_def isNumber_def hmacAlg_def epoch_def)

end
